theory Spec2Isabelle
  imports
    Complex_Main
    "HOL-Library.Multiset"
    "HOL-Library.Char_ord"
    "HOL-Library.List_Lexorder"
begin

section \<open>The lecture attendance checker (app.py)\<close>

text \<open>
  The program is one Streamlit script: every user interaction runs one branch of the
  menu (Register, Login, Check-in, Dashboard) against a SQLite database of three tables
  and a directory of face pictures. The model has one function for each branch, passing
  the whole store explicitly. Values of TEXT columns are byte strings; SQLite compares
  them bytewise, which is the lexicographic order of \<open>string\<close> used below.
\<close>

subsection \<open>Tables of \<open>init_db\<close>\<close>

type_synonym path = string
type_synonym image = string

record student =
  s_id :: int
  s_student_id :: string
  s_name :: string
  s_email :: string
  s_password_hash :: string
  s_face_path :: path
  s_created_at :: string

record lecture =
  l_id :: int
  l_lecture_code :: string
  l_lecture_title :: string
  l_date :: string

record attendance =
  a_id :: int
  a_student_id :: string
  a_lecture_id :: int
  a_timestamp :: string

text \<open>
  The store: the three tables in rowid order, the picture files on the disk (each
  under the file that its path names, see \<open>disk\<close> below), and the session's
  \<open>st.session_state.user\<close>. The field \<open>df_calls\<close> is an observer added by the
  model: it counts the invocations of \<open>DeepFace.verify\<close>, so that "no verification was
  performed" is a statement about the state.
\<close>

record app =
  students :: "student list"
  lectures :: "lecture list"
  attendances :: "attendance list"
  files :: "path \<rightharpoonup> image"
  user :: "student option"
  df_calls :: nat

definition init_db :: app where
  "init_db = \<lparr>students = [], lectures = [], attendances = [],
              files = Map.empty, user = None, df_calls = 0\<rparr>"

text \<open>
  \<open>INTEGER PRIMARY KEY AUTOINCREMENT\<close>: the next rowid is one more than the largest
  rowid of the table (no row is ever deleted by the program).
\<close>

definition next_rowid :: "int list \<Rightarrow> int" where
  "next_rowid ids = fold max ids 0 + 1"

subsection \<open>External capabilities\<close>

text \<open>
  The libraries and the operating system the script calls are parameters of the model.
  \<open>DeepFace.verify\<close> either raises or returns a dictionary whose entries \<open>verified\<close> and
  \<open>distance\<close> the script reads. \<open>generate_password_hash\<close> salts at random: the salt is
  an input of the registration. \<open>disk\<close> is what the operating system makes of a path:
  \<open>None\<close> when opening the path raises (a directory on the way does not exist, the name
  is too long, the place cannot be written), else the file the path names; two paths of
  one file give one value.
\<close>

datatype df_outcome = DF_Raise | DF_Result bool real

record ext =
  deepface_model :: "image \<Rightarrow> image \<Rightarrow> df_outcome"
  generate_password_hash :: "string \<Rightarrow> string \<Rightarrow> string"
  check_password_hash :: "string \<Rightarrow> string \<Rightarrow> bool"
  disk :: "path \<Rightarrow> path option"

text \<open>
  \<open>DeepFace.verify(img1_path, img2_path)\<close> loads both files before it compares them and
  raises when a path names no file.
\<close>

definition DeepFace_verify :: "ext \<Rightarrow> (path \<rightharpoonup> image) \<Rightarrow> path \<Rightarrow> path \<Rightarrow> df_outcome" where
  "DeepFace_verify e fs img1_path img2_path =
     (case Option.bind (disk e img1_path) fs of
        None \<Rightarrow> DF_Raise
      | Some img1 \<Rightarrow>
          (case Option.bind (disk e img2_path) fs of
             None \<Rightarrow> DF_Raise
           | Some img2 \<Rightarrow> deepface_model e img1 img2))"

subsection \<open>Helpers of the script\<close>

definition DATA_DIR :: path where
  "DATA_DIR = ''data''"

text \<open>\<open>os.path.join\<close> of two components (POSIX): an absolute second component wins.\<close>

definition path_join :: "path \<Rightarrow> path \<Rightarrow> path" where
  "path_join a b =
     (if b \<noteq> [] \<and> hd b = CHR ''/'' then b
      else if a = [] \<or> last a = CHR ''/'' then a @ b
      else a @ ''/'' @ b)"

text \<open>
  \<open>save_face\<close>: the picture is written to the path \<open>DATA_DIR/<student_id>.jpg\<close>, replacing
  the file that path names, and the path is returned. \<open>img.save\<close> raises when the path
  cannot be opened (the result \<open>None\<close>); neither caller catches that. A captured picture
  is a well-formed image, which \<open>Image.open\<close> accepts.
\<close>

definition save_face ::
  "ext \<Rightarrow> (path \<rightharpoonup> image) \<Rightarrow> string \<Rightarrow> image \<Rightarrow> ((path \<rightharpoonup> image) \<times> path) option" where
  "save_face e fs student_id img =
     (let path = path_join DATA_DIR (student_id @ ''.jpg'')
      in case disk e path of
           None \<Rightarrow> None
         | Some file \<Rightarrow> Some (fs(file \<mapsto> img), path))"

text \<open>\<open>verify_faces\<close>: the \<open>try\<close> around \<open>DeepFace.verify\<close>, with its catch-all \<open>except\<close>.\<close>

definition verify_faces :: "ext \<Rightarrow> (path \<rightharpoonup> image) \<Rightarrow> path \<Rightarrow> path \<Rightarrow> bool \<times> real" where
  "verify_faces e fs registered_img new_img =
     (case DeepFace_verify e fs registered_img new_img of
        DF_Result verified distance \<Rightarrow> (verified, distance)
      | DF_Raise \<Rightarrow> (False, 1))"

subsection \<open>What the script reports\<close>

text \<open>
  One constructor for each \<open>st.success\<close>, \<open>st.error\<close>, \<open>st.info\<close> and \<open>st.warning\<close>
  of the script:
  \<^item> \<open>AllFieldsRequired\<close>: "All fields and a face capture are required."
  \<^item> \<open>Registered\<close>: "Registered successfully! You can now login."
  \<^item> \<open>DuplicateError\<close>: "Student ID or Email already exists."
  \<^item> \<open>Welcome\<close>, \<open>InvalidCredentials\<close>: the two outcomes of the login
  \<^item> \<open>PleaseLoginFirst\<close>: "Please login first."
  \<^item> \<open>LectureCodeMissing\<close>: "Lecture code and face capture required."
  \<^item> \<open>FaceMismatch d\<close>: "Face mismatch (distance=d)"
  \<^item> \<open>AlreadyCheckedIn\<close>: "Already checked in for this lecture."
  \<^item> \<open>Recorded\<close>: "Check-in successful!"

  \<open>Uncaught\<close> stands for a run of the script that ends in an exception nothing catches.
\<close>

datatype message =
    AllFieldsRequired
  | Registered
  | DuplicateError
  | Welcome string
  | InvalidCredentials
  | PleaseLoginFirst
  | LectureCodeMissing
  | FaceMismatch real
  | AlreadyCheckedIn
  | Recorded
  | Uncaught

subsection \<open>Registration\<close>

record register_form =
  r_sid :: string
  r_name :: string
  r_email :: string
  r_pw :: string
  r_photo :: "image option"
  r_salt :: string
  r_now :: string

text \<open>
  The INSERT into \<open>students\<close>: the columns \<open>student_id\<close> and \<open>email\<close> are UNIQUE, and a
  violation raises \<open>sqlite3.IntegrityError\<close> (the result \<open>None\<close>) and inserts nothing.
\<close>

definition insert_student ::
  "student list \<Rightarrow> string \<Rightarrow> string \<Rightarrow> string \<Rightarrow> string \<Rightarrow> path \<Rightarrow> string \<Rightarrow> student list option" where
  "insert_student tbl sid name email pwhash face_path created =
     (if \<exists>s \<in> set tbl. s_student_id s = sid \<or> s_email s = email then None
      else Some (tbl @ [\<lparr>s_id = next_rowid (map s_id tbl), s_student_id = sid, s_name = name,
                         s_email = email, s_password_hash = pwhash, s_face_path = face_path,
                         s_created_at = created\<rparr>]))"

definition register :: "ext \<Rightarrow> app \<Rightarrow> register_form \<Rightarrow> app \<times> message" where
  "register e st f =
     (case r_photo f of
        None \<Rightarrow> (st, AllFieldsRequired)
      | Some photo \<Rightarrow>
          if \<not> (r_sid f \<noteq> [] \<and> r_email f \<noteq> [] \<and> r_pw f \<noteq> []) then (st, AllFieldsRequired)
          else
            (case save_face e (files st) (r_sid f) photo of
               None \<Rightarrow> (st, Uncaught)
             | Some (fs, face_path) \<Rightarrow>
                 let st1 = st\<lparr>files := fs\<rparr>
                 in (case insert_student (students st1) (r_sid f) (r_name f) (r_email f)
                            (generate_password_hash e (r_pw f) (r_salt f)) face_path (r_now f) of
                       Some tbl \<Rightarrow> (st1\<lparr>students := tbl\<rparr>, Registered)
                     | None \<Rightarrow> (st1, DuplicateError))))"

subsection \<open>Login\<close>

definition login :: "ext \<Rightarrow> app \<Rightarrow> string \<Rightarrow> string \<Rightarrow> app \<times> message" where
  "login e st email pw =
     (case find (\<lambda>s. s_email s = email) (students st) of
        None \<Rightarrow> (st, InvalidCredentials)
      | Some row \<Rightarrow>
          if check_password_hash e (s_password_hash row) pw
          then (st\<lparr>user := Some row\<rparr>,
                Welcome (if s_name row \<noteq> [] then s_name row else s_student_id row))
          else (st, InvalidCredentials))"

subsection \<open>Check-in\<close>

record checkin_form =
  c_lec_code :: string
  c_lec_title :: string
  c_photo :: "image option"
  c_today :: string
  c_now :: string

text \<open>
  The probe is saved under \<open><student_id>_probe\<close> and compared with the file the session's
  \<open>face_path\<close> names. The result is \<open>None\<close> when saving the probe raises, else the store
  after the write, and \<open>(ok, dist)\<close>.
\<close>

definition probe_verify :: "ext \<Rightarrow> app \<Rightarrow> student \<Rightarrow> image \<Rightarrow> (app \<times> bool \<times> real) option" where
  "probe_verify e st u photo =
     (case save_face e (files st) (s_student_id u @ ''_probe'') photo of
        None \<Rightarrow> None
      | Some (fs, probe_path) \<Rightarrow>
          let (ok, dist) = verify_faces e fs (s_face_path u) probe_path
          in Some (st\<lparr>files := fs, df_calls := Suc (df_calls st)\<rparr>, ok, dist))"

text \<open>
  The lecture of a code: the first row with that code if there is one, else a new row,
  whose id \<open>last_insert_rowid()\<close> returns.
\<close>

definition find_or_create_lecture :: "app \<Rightarrow> string \<Rightarrow> string \<Rightarrow> string \<Rightarrow> app \<times> int" where
  "find_or_create_lecture st lec_code lec_title today =
     (case find (\<lambda>l. l_lecture_code l = lec_code) (lectures st) of
        None \<Rightarrow>
          (let lec_id = next_rowid (map l_id (lectures st))
           in (st\<lparr>lectures := lectures st @
                  [\<lparr>l_id = lec_id, l_lecture_code = lec_code, l_lecture_title = lec_title,
                    l_date = today\<rparr>]\<rparr>, lec_id))
      | Some lec \<Rightarrow> (st, l_id lec))"

text \<open>
  The duplicate lookup and the INSERT into \<open>attendances\<close> are two statements. The table
  declares no UNIQUE constraint, so the INSERT always appends a row.
\<close>

definition select_dup :: "app \<Rightarrow> string \<Rightarrow> int \<Rightarrow> attendance option" where
  "select_dup st sid lec_id =
     find (\<lambda>a. a_student_id a = sid \<and> a_lecture_id a = lec_id) (attendances st)"

definition insert_attendance :: "app \<Rightarrow> string \<Rightarrow> int \<Rightarrow> string \<Rightarrow> app" where
  "insert_attendance st sid lec_id now =
     st\<lparr>attendances := attendances st @
          [\<lparr>a_id = next_rowid (map a_id (attendances st)), a_student_id = sid,
            a_lecture_id = lec_id, a_timestamp = now\<rparr>]\<rparr>"

text \<open>What the script does with the row \<open>dup\<close> it has read.\<close>

definition record_unless :: "attendance option \<Rightarrow> app \<Rightarrow> string \<Rightarrow> int \<Rightarrow> string \<Rightarrow> app \<times> message" where
  "record_unless dup st sid lec_id now =
     (case dup of
        Some _ \<Rightarrow> (st, AlreadyCheckedIn)
      | None \<Rightarrow> (insert_attendance st sid lec_id now, Recorded))"

definition checkin :: "ext \<Rightarrow> app \<Rightarrow> checkin_form \<Rightarrow> app \<times> message" where
  "checkin e st f =
     (case user st of
        None \<Rightarrow> (st, PleaseLoginFirst)
      | Some u \<Rightarrow>
          (case c_photo f of
             None \<Rightarrow> (st, LectureCodeMissing)
           | Some photo \<Rightarrow>
               if c_lec_code f = [] then (st, LectureCodeMissing)
               else
                 (case probe_verify e st u photo of
                    None \<Rightarrow> (st, Uncaught)
                  | Some (st1, ok, distance) \<Rightarrow>
                      if \<not> ok then (st1, FaceMismatch distance)
                      else
                        let (st2, lec_id) =
                              find_or_create_lecture st1 (c_lec_code f) (c_lec_title f) (c_today f);
                            dup = select_dup st2 (s_student_id u) lec_id
                        in record_unless dup st2 (s_student_id u) lec_id (c_now f))))"

subsection \<open>Dashboard\<close>

text \<open>
  \<open>SELECT * FROM lectures ORDER BY date DESC\<close>. SQL leaves the order of rows with equal
  dates open; the model keeps them in table order, and no theorem depends on that.
\<close>

definition list_lectures :: "app \<Rightarrow> lecture list" where
  "list_lectures st = rev (sort_key l_date (rev (lectures st)))"

text \<open>The join of \<open>attendances\<close> with \<open>students\<close> for one lecture, before it is ordered.\<close>

definition attendance_join :: "app \<Rightarrow> int \<Rightarrow> (string \<times> string \<times> string) list" where
  "attendance_join st lec_id =
     concat (map (\<lambda>a. map (\<lambda>s. (a_timestamp a, s_student_id s, s_name s))
                          (filter (\<lambda>s. s_student_id s = a_student_id a) (students st)))
                 (filter (\<lambda>a. a_lecture_id a = lec_id) (attendances st)))"

definition list_attendance :: "app \<Rightarrow> int \<Rightarrow> (string \<times> string \<times> string) list" where
  "list_attendance st lec_id = sort_key fst (attendance_join st lec_id)"

text \<open>
  \<open>lec_map\<close>: a Python dict built in the order of the listing; a label that comes again
  keeps its place and takes the later id.
\<close>

definition lec_label :: "lecture \<Rightarrow> string" where
  "lec_label l = l_lecture_code l @ '' - '' @ l_date l"

definition dict_set :: "('k \<times> 'v) list \<Rightarrow> 'k \<Rightarrow> 'v \<Rightarrow> ('k \<times> 'v) list" where
  "dict_set d k v =
     (if k \<in> fst ` set d then map (\<lambda>(k', v'). if k' = k then (k', v) else (k', v')) d
      else d @ [(k, v)])"

definition lec_map :: "lecture list \<Rightarrow> (string \<times> int) list" where
  "lec_map lecs = fold (\<lambda>l d. dict_set d (lec_label l) (l_id l)) lecs []"

datatype view =
    NoLecturesYet
  | Listing "lecture list" string "(string \<times> string \<times> string) list"

text \<open>\<open>sel\<close> is the position the user picks in the select box (the first by default).\<close>

definition dashboard :: "app \<Rightarrow> nat \<Rightarrow> app \<times> view" where
  "dashboard st sel =
     (let lecs = list_lectures st; m = lec_map lecs
      in if m = [] then (st, NoLecturesYet)
         else
           let (lec_choice, lec_id) = m ! (if sel < length m then sel else 0)
           in (st, Listing lecs lec_choice (list_attendance st lec_id)))"

subsection \<open>Runs of the program\<close>

datatype operation =
    Register register_form
  | Login string string
  | CheckIn checkin_form
  | Dashboard nat

fun step :: "ext \<Rightarrow> app \<Rightarrow> operation \<Rightarrow> app" where
  "step e st (Register f) = fst (register e st f)"
| "step e st (Login email pw) = fst (login e st email pw)"
| "step e st (CheckIn f) = fst (checkin e st f)"
| "step e st (Dashboard sel) = fst (dashboard st sel)"

definition run :: "ext \<Rightarrow> app \<Rightarrow> operation list \<Rightarrow> app" where
  "run e st ops = foldl (step e) st ops"

definition unique_pairs :: "app \<Rightarrow> bool" where
  "unique_pairs st = distinct (map (\<lambda>a. (a_student_id a, a_lecture_id a)) (attendances st))"

text \<open>Every attendance row names the id of a lecture row.\<close>

definition lecture_refs :: "app \<Rightarrow> bool" where
  "lecture_refs st = (\<forall>a \<in> set (attendances st). a_lecture_id a \<in> l_id ` set (lectures st))"

text \<open>
  Two sessions of one student running the check-in branch after a successful
  verification, statement by statement, where the second session reads before the first
  one writes. Every changing statement is committed on its own and no transaction spans
  a lookup and its INSERT, so SQLite admits this order.
\<close>

definition checkin_interleaved ::
  "app \<Rightarrow> student \<Rightarrow> string \<Rightarrow> string \<Rightarrow> string \<Rightarrow> string \<Rightarrow> string \<Rightarrow> app" where
  "checkin_interleaved st u lec_code lec_title today now_a now_b =
     (let (st1, lec_a) = find_or_create_lecture st lec_code lec_title today;
          dup_a = select_dup st1 (s_student_id u) lec_a;
          (st2, lec_b) = find_or_create_lecture st1 lec_code lec_title today;
          dup_b = select_dup st2 (s_student_id u) lec_b;
          (st3, _) = record_unless dup_a st2 (s_student_id u) lec_a now_a;
          (st4, _) = record_unless dup_b st3 (s_student_id u) lec_b now_b
      in st4)"

subsection \<open>A concrete scenario\<close>

text \<open>
  The disk of the scenario: the directory of the script holds the directory \<open>data\<close>
  that the script makes at its start and no other directory, and nothing outside it
  can be written. A relative path is walked from the directory of the script, as POSIX
  does: empty components and \<open>.\<close> stay, \<open>..\<close> goes up, a name enters that directory if
  it exists. The last component names the file; it is a name of at most 255 bytes
  that is no directory.
\<close>

fun split_slash :: "string \<Rightarrow> string list" where
  "split_slash [] = [[]]"
| "split_slash (c # cs) =
     (if c = CHR ''/'' then [] # split_slash cs
      else (case split_slash cs of [] \<Rightarrow> [[c]] | x # xs \<Rightarrow> (c # x) # xs))"

fun walk :: "string list \<Rightarrow> string list \<Rightarrow> string list option" where
  "walk dir [] = Some dir"
| "walk dir (c # cs) =
     (if c = [] \<or> c = ''.'' then walk dir cs
      else if c = ''..'' then (if dir = [] then None else walk (butlast dir) cs)
      else if dir @ [c] = [''data''] then walk (dir @ [c]) cs
      else None)"

fun join_slash :: "string list \<Rightarrow> string" where
  "join_slash [] = []"
| "join_slash [x] = x"
| "join_slash (x # y # ys) = x @ ''/'' @ join_slash (y # ys)"

definition script_dir_disk :: "path \<Rightarrow> path option" where
  "script_dir_disk p =
     (if p = [] \<or> hd p = CHR ''/'' then None
      else
        let comps = split_slash p; name = last comps
        in case walk [] (butlast comps) of
             None \<Rightarrow> None
           | Some dir \<Rightarrow>
               if name = [] \<or> name = ''.'' \<or> name = ''..'' \<or> 255 < length name
                  \<or> dir @ [name] = [''data'']
               then None
               else Some (join_slash (dir @ [name])))"

text \<open>
  The scenario of the specification: Alice registers as S100 with picture \<open>A\<close>, logs in
  and checks in to CS101-2025-09-05. The face model of the scenario accepts equal
  pictures only; \<open>broken_ext\<close> is a model that fails on every pair.
\<close>

definition demo_ext :: ext where
  "demo_ext = \<lparr>deepface_model = (\<lambda>a b. if a = b then DF_Result True 0 else DF_Result False 1),
               generate_password_hash = (\<lambda>pw salt. salt @ pw),
               check_password_hash = (\<lambda>h pw. drop (length h - length pw) h = pw),
               disk = script_dir_disk\<rparr>"

definition broken_ext :: ext where
  "broken_ext = demo_ext\<lparr>deepface_model := (\<lambda>a b. DF_Raise)\<rparr>"

definition alice_form :: register_form where
  "alice_form = \<lparr>r_sid = ''S100'', r_name = ''Alice'', r_email = ''alice@x.com'', r_pw = ''pw123'',
                 r_photo = Some ''A'', r_salt = ''na'', r_now = ''2025-09-01T08:00:00''\<rparr>"

definition alice_row :: student where
  "alice_row = \<lparr>s_id = 1, s_student_id = ''S100'', s_name = ''Alice'', s_email = ''alice@x.com'',
                s_password_hash = ''napw123'', s_face_path = ''data/S100.jpg'',
                s_created_at = ''2025-09-01T08:00:00''\<rparr>"

definition alice_session :: app where
  "alice_session = run demo_ext init_db [Register alice_form, Login ''alice@x.com'' ''pw123'']"

definition cs_form :: "image \<Rightarrow> string \<Rightarrow> checkin_form" where
  "cs_form photo now = \<lparr>c_lec_code = ''CS101-2025-09-05'', c_lec_title = ''Intro'',
       c_photo = Some photo, c_today = ''2025-09-05'', c_now = now\<rparr>"

text \<open>Mallory registers with Alice's student id and her own picture \<open>M\<close>.\<close>

definition mallory_form :: register_form where
  "mallory_form = \<lparr>r_sid = ''S100'', r_name = ''Mallory'', r_email = ''mallory@x.com'',
                   r_pw = ''hunter2'', r_photo = Some ''M'', r_salt = ''cl'',
                   r_now = ''2025-09-02T09:00:00''\<rparr>"

text \<open>Alice's session after the picture directory has lost her file.\<close>

definition lost_face_session :: app where
  "lost_face_session = alice_session\<lparr>files := Map.empty\<rparr>"

definition nameless_form :: register_form where
  "nameless_form = \<lparr>r_sid = ''S200'', r_name = [], r_email = ''bob@x.com'',
                    r_pw = ''pw456'', r_photo = Some ''B'', r_salt = ''cl'',
                    r_now = ''2025-09-02T09:00:00''\<rparr>"




text \<open>A student id in the form the home page of the script prints, and no name.\<close>

definition slash_form :: register_form where
  "slash_form = \<lparr>r_sid = ''CSC/22D/4441'', r_name = [], r_email = ''sadiq@x.com'',
                 r_pw = ''pw000'', r_photo = Some ''S'', r_salt = ''cl'',
                 r_now = ''2025-09-02T09:00:00''\<rparr>"

text \<open>Alice has checked in to CS101; \<open>cs102_form\<close> is a check-in to another lecture.\<close>

definition after_cs101 :: app where
  "after_cs101 = run demo_ext init_db
     [Register alice_form, Login ''alice@x.com'' ''pw123'',
      CheckIn (cs_form ''A'' ''2025-09-05T10:00:00'')]"

definition cs102_form :: "string \<Rightarrow> checkin_form" where
  "cs102_form now = \<lparr>c_lec_code = ''CS102-2025-09-12'', c_lec_title = ''Lists'',
       c_photo = Some ''A'', c_today = ''2025-09-12'', c_now = now\<rparr>"

text \<open>Alice checks in to two lectures a week apart.\<close>

definition two_lectures :: app where
  "two_lectures = run demo_ext alice_session
     [CheckIn (cs_form ''A'' ''2025-09-05T10:00:00''),
      CheckIn (cs102_form ''2025-09-12T10:00:00'')]"

section \<open>Properties\<close>

subsection \<open>Auxiliary facts\<close>

lemma disk_scenario:
  "script_dir_disk ''data/S100.jpg'' = Some ''data/S100.jpg''"
  "script_dir_disk ''data/S100_probe.jpg'' = Some ''data/S100_probe.jpg''"
  "script_dir_disk ''data/S200.jpg'' = Some ''data/S200.jpg''"
  "script_dir_disk ''data/S200_probe.jpg'' = Some ''data/S200_probe.jpg''"
  "script_dir_disk ''data/S300.jpg'' = Some ''data/S300.jpg''"
  "script_dir_disk ''data/S300_probe.jpg'' = Some ''data/S300_probe.jpg''"
  "script_dir_disk ''data/CSC/22D/4441.jpg'' = None"
  by (simp_all add: script_dir_disk_def Let_def)

lemmas eval_defs = run_def init_db_def register_def login_def checkin_def demo_ext_def
  save_face_def path_join_def DATA_DIR_def insert_student_def next_rowid_def Let_def
  probe_verify_def verify_faces_def DeepFace_verify_def find_or_create_lecture_def
  select_dup_def record_unless_def insert_attendance_def alice_form_def alice_row_def cs_form_def
  cs102_form_def disk_scenario

lemma alice_session_eq:
  "alice_session = \<lparr>students = [alice_row], lectures = [], attendances = [],
      files = [''data/S100.jpg'' \<mapsto> ''A''], user = Some alice_row, df_calls = 0\<rparr>"
  by (simp add: alice_session_def eval_defs)

lemma after_cs101_eq:
  "after_cs101 = \<lparr>students = [alice_row],
      lectures = [\<lparr>l_id = 1, l_lecture_code = ''CS101-2025-09-05'', l_lecture_title = ''Intro'',
                   l_date = ''2025-09-05''\<rparr>],
      attendances = [\<lparr>a_id = 1, a_student_id = ''S100'', a_lecture_id = 1,
                      a_timestamp = ''2025-09-05T10:00:00''\<rparr>],
      files = [''data/S100.jpg'' \<mapsto> ''A'', ''data/S100_probe.jpg'' \<mapsto> ''A''],
      user = Some alice_row, df_calls = 1\<rparr>"
  by (simp add: after_cs101_def eval_defs)

lemma find_snoc:
  "find P (xs @ [x]) = (case find P xs of Some y \<Rightarrow> Some y | None \<Rightarrow> if P x then Some x else None)"
  by (induction xs) auto

lemma find_Some_in: "find P xs = Some x \<Longrightarrow> x \<in> set xs \<and> P x"
  by (induction xs) (auto split: if_splits)

lemma fold_max_ge: "(a::int) \<le> fold max ids a \<and> (\<forall>x \<in> set ids. x \<le> fold max ids a)"
proof (induction ids arbitrary: a)
  case Nil
  then show ?case by simp
next
  case (Cons i ids)
  from Cons.IH [of "max i a"] show ?case by auto
qed

lemma next_rowid_fresh: "x \<in> set ids \<Longrightarrow> x < next_rowid ids"
  using fold_max_ge [of 0 ids] by (auto simp add: next_rowid_def)

lemma probe_verify_frame:
  assumes "probe_verify e st u p = Some (st1, ok, d)"
  shows "lectures st1 = lectures st" and "attendances st1 = attendances st"
    and "students st1 = students st" and "user st1 = user st"
  using assms
  by (auto simp add: probe_verify_def save_face_def Let_def split: option.splits prod.splits)

lemma find_or_create_lecture_frame:
  "attendances (fst (find_or_create_lecture st c t d)) = attendances st"
  "students (fst (find_or_create_lecture st c t d)) = students st"
  "user (fst (find_or_create_lecture st c t d)) = user st"
  "files (fst (find_or_create_lecture st c t d)) = files st"
  "df_calls (fst (find_or_create_lecture st c t d)) = df_calls st"
  by (simp_all add: find_or_create_lecture_def Let_def split: option.splits)

lemma find_or_create_lecture_again:
  "lectures sb = lectures (fst (find_or_create_lecture sa c t d)) \<Longrightarrow>
   find_or_create_lecture sb c t' d' = (sb, snd (find_or_create_lecture sa c t d))"
  by (auto simp add: find_or_create_lecture_def Let_def find_snoc split: option.splits)

lemma find_or_create_lecture_found:
  "\<exists>l. find (\<lambda>l. l_lecture_code l = c) (lectures (fst (find_or_create_lecture st c t d))) = Some l
       \<and> l_id l = snd (find_or_create_lecture st c t d)"
  by (auto simp add: find_or_create_lecture_def Let_def find_snoc split: option.splits)

lemma find_or_create_lecture_grows:
  "set (lectures st) \<subseteq> set (lectures (fst (find_or_create_lecture st c t d)))"
  by (auto simp add: find_or_create_lecture_def Let_def split: option.splits)

lemma find_or_create_lecture_id_in:
  "snd (find_or_create_lecture st c t d) \<in> l_id ` set (lectures (fst (find_or_create_lecture st c t d)))"
  by (auto simp add: find_or_create_lecture_def Let_def split: option.splits dest: find_Some_in)

lemma first_lookup_none:
  assumes refs: "lecture_refs st"
    and fresh: "\<forall>a \<in> set (attendances st). \<forall>l \<in> set (lectures st).
                  a_student_id a = sid \<and> l_lecture_code l = code \<longrightarrow> a_lecture_id a \<noteq> l_id l"
  shows "select_dup st sid (snd (find_or_create_lecture st code t d)) = None"
proof (cases "find (\<lambda>l. l_lecture_code l = code) (lectures st)")
  case None
  have "a_lecture_id a \<noteq> next_rowid (map l_id (lectures st))" if "a \<in> set (attendances st)" for a
  proof -
    from refs that have "a_lecture_id a \<in> set (map l_id (lectures st))"
      by (auto simp add: lecture_refs_def)
    then show ?thesis using next_rowid_fresh by fastforce
  qed
  then have "find (\<lambda>a. a_student_id a = sid \<and> a_lecture_id a = next_rowid (map l_id (lectures st)))
               (attendances st) = None"
    by (auto simp add: find_None_iff)
  with None show ?thesis
    by (simp add: select_dup_def find_or_create_lecture_def Let_def)
next
  case (Some l)
  then have "l \<in> set (lectures st)" "l_lecture_code l = code"
    by (auto dest: find_Some_in)
  with fresh have "find (\<lambda>a. a_student_id a = sid \<and> a_lecture_id a = l_id l) (attendances st) = None"
    by (auto simp add: find_None_iff)
  with Some show ?thesis
    by (simp add: select_dup_def find_or_create_lecture_def)
qed

lemma checkin_verified:
  assumes "user st = Some u" "c_photo f = Some p" "c_lec_code f \<noteq> []"
    and "probe_verify e st u p = Some (st1, True, d)"
  shows "checkin e st f =
     (let st2 = fst (find_or_create_lecture st1 (c_lec_code f) (c_lec_title f) (c_today f));
          lec_id = snd (find_or_create_lecture st1 (c_lec_code f) (c_lec_title f) (c_today f))
      in record_unless (select_dup st2 (s_student_id u) lec_id) st2 (s_student_id u) lec_id (c_now f))"
  using assms by (auto simp add: checkin_def Let_def split: prod.splits)

lemma checkin_user: "user (fst (checkin e st f)) = user st"
  by (auto simp add: checkin_def Let_def record_unless_def insert_attendance_def
        probe_verify_def save_face_def find_or_create_lecture_def
      split: option.splits prod.splits)

lemma unique_pairs_insert:
  "unique_pairs st \<Longrightarrow> select_dup st sid lid = None \<Longrightarrow>
   unique_pairs (insert_attendance st sid lid now)"
  by (auto simp add: unique_pairs_def select_dup_def insert_attendance_def find_None_iff)

lemma unique_pairs_record:
  "unique_pairs st \<Longrightarrow>
   unique_pairs (fst (record_unless (select_dup st sid lid) st sid lid now))"
  by (cases "select_dup st sid lid") (simp_all add: record_unless_def unique_pairs_insert)

lemma lecture_refs_record:
  "lecture_refs st \<Longrightarrow> lid \<in> l_id ` set (lectures st) \<Longrightarrow>
   lecture_refs (fst (record_unless dup st sid lid now))"
  by (cases dup) (auto simp add: record_unless_def insert_attendance_def lecture_refs_def)

lemma checkin_cases:
  obtains (verified) u p st1 d where "user st = Some u" "c_photo f = Some p" "c_lec_code f \<noteq> []"
      "probe_verify e st u p = Some (st1, True, d)"
  | (unchanged) "attendances (fst (checkin e st f)) = attendances st"
      "lectures (fst (checkin e st f)) = lectures st"
proof (cases "\<exists>u p st1 d. user st = Some u \<and> c_photo f = Some p \<and> c_lec_code f \<noteq> []
                  \<and> probe_verify e st u p = Some (st1, True, d)")
  case True
  then show ?thesis using verified by blast
next
  case False
  then have "attendances (fst (checkin e st f)) = attendances st \<and>
             lectures (fst (checkin e st f)) = lectures st"
    by (auto simp add: checkin_def Let_def split: option.splits prod.splits
          dest: probe_verify_frame)
  then show ?thesis using unchanged by blast
qed

lemma checkin_unique:
  assumes "unique_pairs st"
  shows "unique_pairs (fst (checkin e st f))"
proof (cases rule: checkin_cases [of st f e])
  case (verified u p st1 d)
  let ?sb = "fst (find_or_create_lecture st1 (c_lec_code f) (c_lec_title f) (c_today f))"
  have "attendances ?sb = attendances st"
    using verified(4) by (simp add: find_or_create_lecture_frame probe_verify_frame)
  with assms have "unique_pairs ?sb"
    by (simp add: unique_pairs_def)
  then show ?thesis
    by (simp add: checkin_verified [OF verified] Let_def unique_pairs_record)
next
  case unchanged
  with assms show ?thesis
    by (simp add: unique_pairs_def)
qed

lemma checkin_refs:
  assumes "lecture_refs st"
  shows "lecture_refs (fst (checkin e st f))"
proof (cases rule: checkin_cases [of st f e])
  case (verified u p st1 d)
  let ?r = "find_or_create_lecture st1 (c_lec_code f) (c_lec_title f) (c_today f)"
  have "lecture_refs st1"
    using assms probe_verify_frame [OF verified(4)] by (simp add: lecture_refs_def)
  then have "lecture_refs (fst ?r)"
    using find_or_create_lecture_grows [of st1 "c_lec_code f" "c_lec_title f" "c_today f"]
    by (auto simp add: lecture_refs_def find_or_create_lecture_frame)
  then show ?thesis
    by (simp add: checkin_verified [OF verified] Let_def lecture_refs_record
          find_or_create_lecture_id_in)
next
  case unchanged
  with assms show ?thesis
    by (simp add: lecture_refs_def)
qed

lemma register_tables:
  "attendances (fst (register e st f)) = attendances st"
  "lectures (fst (register e st f)) = lectures st"
  by (simp_all add: register_def save_face_def Let_def split: option.splits prod.splits)

lemma login_tables:
  "attendances (fst (login e st email pw)) = attendances st"
  "lectures (fst (login e st email pw)) = lectures st"
  by (simp_all add: login_def split: option.splits)

lemma dashboard_state: "fst (dashboard st sel) = st"
  by (simp add: dashboard_def Let_def split: prod.splits)

lemma step_unique: "unique_pairs st \<Longrightarrow> unique_pairs (step e st op)"
proof (cases op)
  case (CheckIn f)
  assume "unique_pairs st"
  then show ?thesis by (simp add: CheckIn checkin_unique)
qed (simp_all add: unique_pairs_def register_tables login_tables dashboard_state)

lemma step_refs: "lecture_refs st \<Longrightarrow> lecture_refs (step e st op)"
proof (cases op)
  case (CheckIn f)
  assume "lecture_refs st"
  then show ?thesis by (simp add: CheckIn checkin_refs)
qed (simp_all add: lecture_refs_def register_tables login_tables dashboard_state)

lemma run_unique: "unique_pairs st \<Longrightarrow> unique_pairs (run e st ops)"
  unfolding run_def by (induction ops arbitrary: st) (simp_all add: step_unique)

lemma run_refs: "lecture_refs st \<Longrightarrow> lecture_refs (run e st ops)"
  unfolding run_def by (induction ops arbitrary: st) (simp_all add: step_refs)

lemma reachable_invariants: "unique_pairs (run e init_db ops) \<and> lecture_refs (run e init_db ops)"
proof
  have "unique_pairs init_db" by (simp add: unique_pairs_def init_db_def)
  then show "unique_pairs (run e init_db ops)" by (rule run_unique)
  have "lecture_refs init_db" by (simp add: lecture_refs_def init_db_def)
  then show "lecture_refs (run e init_db ops)" by (rule run_refs)
qed



subsection \<open>Checking in twice\<close>

text \<open>
  C1, as amended. The store is one the program reaches, a student \<open>u\<close> is logged in and
  has no attendance row for a lecture with the code. The student checks in twice in
  sequence with that code, and the face verification succeeds both times. Then the
  first call reports \<open>Recorded\<close> and the second \<open>AlreadyCheckedIn\<close>; afterwards the
  lecture of the code is in the lectures table, and the attendances table is the old
  one with one row added, for the student, that lecture and the time of the first
  call: exactly one row for the pair.
\<close>

theorem checkin_twice:
  assumes reach: "st = run e init_db ops"
    and u: "user st = Some u" and code: "code \<noteq> []"
    and fresh: "\<forall>a \<in> set (attendances st). \<forall>l \<in> set (lectures st).
                  a_student_id a = s_student_id u \<and> l_lecture_code l = code
                    \<longrightarrow> a_lecture_id a \<noteq> l_id l"
    and ok1: "probe_verify e st u p1 = Some (sa, True, dist1)"
    and c1: "checkin e st \<lparr>c_lec_code = code, c_lec_title = t1, c_photo = Some p1,
                          c_today = d1, c_now = n1\<rparr> = (st1, m1)"
    and ok2: "probe_verify e st1 u p2 = Some (sc, True, dist2)"
    and c2: "checkin e st1 \<lparr>c_lec_code = code, c_lec_title = t2, c_photo = Some p2,
                           c_today = d2, c_now = n2\<rparr> = (st2, m2)"
  shows "m1 = Recorded \<and> m2 = AlreadyCheckedIn \<and>
         (\<exists>l row. find (\<lambda>l. l_lecture_code l = code) (lectures st2) = Some l \<and>
            attendances st2 = attendances st @ [row] \<and>
            a_student_id row = s_student_id u \<and> a_lecture_id row = l_id l \<and>
            a_timestamp row = n1 \<and>
            length (filter (\<lambda>a. a_student_id a = s_student_id u \<and> a_lecture_id a = l_id l)
                      (attendances st2)) = 1)"
proof -
  let ?sid = "s_student_id u"
  define lid where "lid = snd (find_or_create_lecture sa code t1 d1)"
  define sb where "sb = fst (find_or_create_lecture sa code t1 d1)"
  have tables_sa: "lectures sa = lectures st" "attendances sa = attendances st"
    using probe_verify_frame [OF ok1] by simp_all
  have "lecture_refs st"
    using reachable_invariants [of e ops] reach by simp
  then have refs_sa: "lecture_refs sa"
    by (simp add: lecture_refs_def tables_sa)
  have att_sb: "attendances sb = attendances st"
    by (simp add: sb_def find_or_create_lecture_frame tables_sa)
  have "select_dup sa ?sid lid = None"
    unfolding lid_def using refs_sa fresh by (intro first_lookup_none) (simp_all add: tables_sa)
  then have dup1: "select_dup sb ?sid lid = None"
    by (simp add: select_dup_def att_sb tables_sa)
  have first: "checkin e st \<lparr>c_lec_code = code, c_lec_title = t1, c_photo = Some p1,
                          c_today = d1, c_now = n1\<rparr>
               = (insert_attendance sb ?sid lid n1, Recorded)"
    using checkin_verified [OF u _ _ ok1, of "\<lparr>c_lec_code = code, c_lec_title = t1,
            c_photo = Some p1, c_today = d1, c_now = n1\<rparr>"] code dup1
    by (simp add: Let_def lid_def [symmetric] sb_def [symmetric] record_unless_def)
  with c1 have st1: "st1 = insert_attendance sb ?sid lid n1" and m1: "m1 = Recorded"
    by simp_all
  have u1: "user st1 = Some u"
    using checkin_user [of e st] c1 u by (metis fst_conv)
  have lec_sc: "lectures sc = lectures sb"
    using probe_verify_frame [OF ok2] by (simp add: st1 insert_attendance_def)
  have again: "find_or_create_lecture sc code t2 d2 = (sc, lid)"
    using find_or_create_lecture_again [of sc sa code t1 d1 t2 d2] lec_sc
    by (simp add: sb_def lid_def)
  have att_sc: "attendances sc = attendances st @
      [\<lparr>a_id = next_rowid (map a_id (attendances st)), a_student_id = ?sid,
        a_lecture_id = lid, a_timestamp = n1\<rparr>]"
    using probe_verify_frame [OF ok2] by (simp add: st1 insert_attendance_def att_sb)
  have none: "filter (\<lambda>a. a_student_id a = ?sid \<and> a_lecture_id a = lid) (attendances st) = []"
    using dup1 by (auto simp add: select_dup_def att_sb find_None_iff filter_empty_conv)
  have dup2: "select_dup sc ?sid lid \<noteq> None"
    by (simp add: select_dup_def att_sc find_snoc split: option.splits)
  have second: "checkin e st1 \<lparr>c_lec_code = code, c_lec_title = t2, c_photo = Some p2,
                           c_today = d2, c_now = n2\<rparr> = (sc, AlreadyCheckedIn)"
    using checkin_verified [OF u1 _ _ ok2, of "\<lparr>c_lec_code = code, c_lec_title = t2,
            c_photo = Some p2, c_today = d2, c_now = n2\<rparr>"] code dup2
    by (auto simp add: Let_def again record_unless_def split: option.splits)
  with c2 have st2: "st2 = sc" and m2: "m2 = AlreadyCheckedIn" by simp_all
  obtain l where l: "find (\<lambda>l. l_lecture_code l = code) (lectures sc) = Some l" "l_id l = lid"
    using find_or_create_lecture_found [of code sa t1 d1] by (auto simp add: lec_sc sb_def lid_def)
  show ?thesis
    using m1 m2 l by (simp add: st2 att_sc none)
qed

theorem checkin_twice_witness:
  "snd (checkin demo_ext after_cs101 (cs102_form ''2025-09-12T10:00:00'')) = Recorded \<and>
   snd (checkin demo_ext
          (fst (checkin demo_ext after_cs101 (cs102_form ''2025-09-12T10:00:00'')))
          (cs102_form ''2025-09-12T10:00:09'')) = AlreadyCheckedIn \<and>
   (\<exists>l row.
      find (\<lambda>l. l_lecture_code l = ''CS102-2025-09-12'')
        (lectures (fst (checkin demo_ext
          (fst (checkin demo_ext after_cs101 (cs102_form ''2025-09-12T10:00:00'')))
          (cs102_form ''2025-09-12T10:00:09'')))) = Some l \<and>
      attendances (fst (checkin demo_ext
          (fst (checkin demo_ext after_cs101 (cs102_form ''2025-09-12T10:00:00'')))
          (cs102_form ''2025-09-12T10:00:09''))) = attendances after_cs101 @ [row] \<and>
      a_student_id row = ''S100'' \<and> a_lecture_id row = l_id l \<and>
      a_timestamp row = ''2025-09-12T10:00:00'' \<and>
      length (filter (\<lambda>a. a_student_id a = ''S100'' \<and> a_lecture_id a = l_id l)
        (attendances (fst (checkin demo_ext
          (fst (checkin demo_ext after_cs101 (cs102_form ''2025-09-12T10:00:00'')))
          (cs102_form ''2025-09-12T10:00:09''))))) = 1)"
proof -
  let ?f1 = "cs102_form ''2025-09-12T10:00:00''"
  let ?f2 = "cs102_form ''2025-09-12T10:00:09''"
  let ?st1 = "fst (checkin demo_ext after_cs101 ?f1)"
  have reach: "after_cs101 = run demo_ext init_db
     [Register alice_form, Login ''alice@x.com'' ''pw123'',
      CheckIn (cs_form ''A'' ''2025-09-05T10:00:00'')]"
    by (simp add: after_cs101_def)
  have u: "user after_cs101 = Some alice_row"
    by (simp add: after_cs101_eq)
  have fresh: "\<forall>a \<in> set (attendances after_cs101). \<forall>l \<in> set (lectures after_cs101).
                  a_student_id a = s_student_id alice_row \<and> l_lecture_code l = ''CS102-2025-09-12''
                    \<longrightarrow> a_lecture_id a \<noteq> l_id l"
    by (simp add: after_cs101_eq)
  have ok1: "probe_verify demo_ext after_cs101 alice_row ''A''
               = Some (the (map_option fst (probe_verify demo_ext after_cs101 alice_row ''A'')), True, 0)"
    by (simp add: after_cs101_eq eval_defs)
  have ok2: "probe_verify demo_ext ?st1 alice_row ''A''
               = Some (the (map_option fst (probe_verify demo_ext ?st1 alice_row ''A'')), True, 0)"
    by (simp add: after_cs101_eq eval_defs)
  have c1: "checkin demo_ext after_cs101 \<lparr>c_lec_code = ''CS102-2025-09-12'',
       c_lec_title = ''Lists'', c_photo = Some ''A'', c_today = ''2025-09-12'',
       c_now = ''2025-09-12T10:00:00''\<rparr>
       = (?st1, snd (checkin demo_ext after_cs101 ?f1))"
    by (simp add: cs102_form_def)
  have c2: "checkin demo_ext ?st1 \<lparr>c_lec_code = ''CS102-2025-09-12'',
       c_lec_title = ''Lists'', c_photo = Some ''A'', c_today = ''2025-09-12'',
       c_now = ''2025-09-12T10:00:09''\<rparr>
       = (fst (checkin demo_ext ?st1 ?f2), snd (checkin demo_ext ?st1 ?f2))"
    by (simp add: cs102_form_def)
  have s: "s_student_id alice_row = ''S100''" by (simp add: alice_row_def)
  show ?thesis
    using checkin_twice [OF reach u _ fresh ok1 c1 ok2 c2] by (simp add: s)
qed

text \<open>
  C1 as stated fails for a student who has checked in to the lecture before: Alice,
  after her check-in to CS101, checks in twice more with the same code and a matching
  face, and both calls report \<open>AlreadyCheckedIn\<close>; the first does not report \<open>Recorded\<close>.
\<close>

theorem checkin_twice_already_present:
  "map_option snd (probe_verify demo_ext after_cs101 alice_row ''A'') = Some (True, 0) \<and>
   snd (checkin demo_ext after_cs101 (cs_form ''A'' ''2025-09-05T10:00:07'')) = AlreadyCheckedIn \<and>
   map_option snd (probe_verify demo_ext
       (fst (checkin demo_ext after_cs101 (cs_form ''A'' ''2025-09-05T10:00:07'')))
       alice_row ''A'') = Some (True, 0) \<and>
   snd (checkin demo_ext
          (fst (checkin demo_ext after_cs101 (cs_form ''A'' ''2025-09-05T10:00:07'')))
          (cs_form ''A'' ''2025-09-05T10:00:09'')) = AlreadyCheckedIn"
  by (simp add: after_cs101_eq eval_defs)

subsection \<open>One row for each student and lecture\<close>

text \<open>
  Runs in which each operation ends before the next begins keep the attendances table
  free of a second row for a pair (\<open>reachable_invariants\<close> above). That rests on the
  lookup alone.

  C2. The lookup and the INSERT are two statements, and the table has no uniqueness
  constraint: when two sessions of a student who has not checked in yet both look up
  the duplicate before either inserts, both insert, and the table holds two rows for
  one student and lecture. The insert is not an atomic conditional insert, and the
  state the two sessions reach breaks the invariant.
\<close>

theorem checkin_interleaved_duplicates:
  assumes "\<forall>a \<in> set (attendances st). a_student_id a \<noteq> s_student_id u"
  shows "\<not> unique_pairs (checkin_interleaved st u lec_code lec_title today now_a now_b)"
proof -
  let ?sid = "s_student_id u"
  define st1 where "st1 = fst (find_or_create_lecture st lec_code lec_title today)"
  define lid where "lid = snd (find_or_create_lecture st lec_code lec_title today)"
  have r1: "find_or_create_lecture st lec_code lec_title today = (st1, lid)"
    by (simp add: st1_def lid_def)
  have r2: "find_or_create_lecture st1 lec_code lec_title today = (st1, lid)"
    using find_or_create_lecture_again [of st1 st lec_code lec_title today lec_title today]
    by (simp add: st1_def lid_def)
  have "attendances st1 = attendances st"
    by (simp add: st1_def find_or_create_lecture_frame)
  with assms have dup: "select_dup st1 ?sid lid = None"
    by (auto simp add: select_dup_def find_None_iff)
  have "checkin_interleaved st u lec_code lec_title today now_a now_b =
          insert_attendance (insert_attendance st1 ?sid lid now_a) ?sid lid now_b"
    by (simp add: checkin_interleaved_def r1 r2 dup record_unless_def)
  then show ?thesis
    by (simp add: unique_pairs_def insert_attendance_def)
qed

theorem interleaved_checkins_duplicate:
  "unique_pairs alice_session \<and>
   \<not> unique_pairs (checkin_interleaved alice_session alice_row ''CS101-2025-09-05'' ''Intro''
        ''2025-09-05'' ''2025-09-05T10:00:00'' ''2025-09-05T10:00:00'')"
proof -
  have "\<forall>a \<in> set (attendances alice_session). a_student_id a \<noteq> s_student_id alice_row"
    by (simp add: alice_session_eq)
  from checkin_interleaved_duplicates [OF this] show ?thesis
    by (simp add: alice_session_eq unique_pairs_def)
qed

subsection \<open>The verifier fails closed\<close>

text \<open>
  C3. When the face comparison raises, \<open>verify_faces\<close> returns \<open>matched = False\<close> with the
  distance 1.0; its result is a pair in every case, so nothing is raised to the caller.
  A match is reported only when the comparison itself returned one.
\<close>

theorem verify_faces_fail_closed:
  "(DeepFace_verify e fs registered_img new_img = DF_Raise \<longrightarrow>
      verify_faces e fs registered_img new_img = (False, 1)) \<and>
   (fst (verify_faces e fs registered_img new_img) \<longrightarrow>
      (\<exists>d. DeepFace_verify e fs registered_img new_img = DF_Result True d))"
  by (cases "DeepFace_verify e fs registered_img new_img") (simp_all add: verify_faces_def)

theorem verify_faces_fail_closed_witness:
  "DeepFace_verify broken_ext [''data/S100.jpg'' \<mapsto> ''A'', ''data/S100_probe.jpg'' \<mapsto> ''A'']
      ''data/S100.jpg'' ''data/S100_probe.jpg'' = DF_Raise \<and>
   verify_faces broken_ext [''data/S100.jpg'' \<mapsto> ''A'', ''data/S100_probe.jpg'' \<mapsto> ''A'']
      ''data/S100.jpg'' ''data/S100_probe.jpg'' = (False, 1) \<and>
   fst (verify_faces demo_ext [''data/S100.jpg'' \<mapsto> ''A'', ''data/S100_probe.jpg'' \<mapsto> ''A'']
      ''data/S100.jpg'' ''data/S100_probe.jpg'') \<and>
   (\<exists>d. DeepFace_verify demo_ext [''data/S100.jpg'' \<mapsto> ''A'', ''data/S100_probe.jpg'' \<mapsto> ''A'']
      ''data/S100.jpg'' ''data/S100_probe.jpg'' = DF_Result True d)"
proof -
  let ?fs = "[''data/S100.jpg'' \<mapsto> ''A'', ''data/S100_probe.jpg'' \<mapsto> ''A'']"
  have r: "DeepFace_verify broken_ext ?fs ''data/S100.jpg'' ''data/S100_probe.jpg'' = DF_Raise"
    by (simp add: DeepFace_verify_def broken_ext_def demo_ext_def disk_scenario)
  have v: "fst (verify_faces demo_ext ?fs ''data/S100.jpg'' ''data/S100_probe.jpg'')"
    by (simp add: verify_faces_def DeepFace_verify_def demo_ext_def disk_scenario)
  show ?thesis
    using verify_faces_fail_closed [of broken_ext ?fs "''data/S100.jpg''" "''data/S100_probe.jpg''"]
      verify_faces_fail_closed [of demo_ext ?fs "''data/S100.jpg''" "''data/S100_probe.jpg''"] r v
    by blast
qed

subsection \<open>Verification gates the ledger\<close>

text \<open>
  C4. In every state, a check-in whose face verification does not return a match
  (it returns \<open>matched = False\<close>, or the probe could not be saved and it never ran)
  leaves the lectures and the attendances tables as they were: no lecture row is
  created and no attendance row is written.
\<close>

theorem checkin_mismatch_frame:
  assumes "user st = Some u" and "c_photo f = Some photo"
    and "map_option (fst \<circ> snd) (probe_verify e st u photo) \<noteq> Some True"
  shows "lectures (fst (checkin e st f)) = lectures st \<and>
         attendances (fst (checkin e st f)) = attendances st"
  using assms
  by (auto simp add: checkin_def Let_def split: option.splits prod.splits dest: probe_verify_frame)

theorem checkin_mismatch_frame_witness:
  "user alice_session = Some alice_row \<and>
   map_option (fst \<circ> snd) (probe_verify demo_ext alice_session alice_row ''B'') = Some False \<and>
   lectures (fst (checkin demo_ext alice_session (cs_form ''B'' ''2025-09-05T10:00:00''))) = [] \<and>
   attendances (fst (checkin demo_ext alice_session (cs_form ''B'' ''2025-09-05T10:00:00''))) = []"
proof -
  have u: "user alice_session = Some alice_row" by (simp add: alice_session_eq)
  have p: "c_photo (cs_form ''B'' ''2025-09-05T10:00:00'') = Some ''B''" by (simp add: cs_form_def)
  have n: "map_option (fst \<circ> snd) (probe_verify demo_ext alice_session alice_row ''B'') = Some False"
    by (simp add: alice_session_eq eval_defs)
  have n': "map_option (fst \<circ> snd) (probe_verify demo_ext alice_session alice_row ''B'') \<noteq> Some True"
    unfolding n by simp
  show ?thesis
    using checkin_mismatch_frame [OF u p n'] u n by (simp add: alice_session_eq)
qed

subsection \<open>Registration with a taken student id or email\<close>

text \<open>
  C5. A registration with all required fields whose student_id or email is already in
  the students table inserts no row, but the store does not stay as it was: the picture
  is written before the INSERT is tried, so when the write succeeds the registration
  reports \<open>DuplicateError\<close> and the file of \<open>DATA_DIR/<student_id>.jpg\<close> holds the rejected
  picture. At the input below the picture of the registered student S100 is replaced
  by Mallory's.
\<close>

theorem register_duplicate:
  assumes "r_photo f = Some photo" and "r_sid f \<noteq> []" and "r_email f \<noteq> []" and "r_pw f \<noteq> []"
    and "\<exists>s \<in> set (students st). s_student_id s = r_sid f \<or> s_email s = r_email f"
  shows "register e st f =
           (case disk e (path_join DATA_DIR (r_sid f @ ''.jpg'')) of
              None \<Rightarrow> (st, Uncaught)
            | Some file \<Rightarrow> (st\<lparr>files := (files st)(file \<mapsto> photo)\<rparr>, DuplicateError))"
  using assms
  by (simp add: register_def save_face_def insert_student_def Let_def split: option.splits)

theorem register_duplicate_overwrites:
  "snd (register demo_ext alice_session mallory_form) = DuplicateError \<and>
   students (fst (register demo_ext alice_session mallory_form)) = students alice_session \<and>
   Option.bind (disk demo_ext (s_face_path alice_row)) (files alice_session) = Some ''A'' \<and>
   Option.bind (disk demo_ext (s_face_path alice_row))
     (files (fst (register demo_ext alice_session mallory_form))) = Some ''M''"
proof -
  have d: "\<exists>s \<in> set (students alice_session).
             s_student_id s = r_sid mallory_form \<or> s_email s = r_email mallory_form"
    by (simp add: alice_session_eq alice_row_def mallory_form_def)
  have "register demo_ext alice_session mallory_form =
          (case disk demo_ext (path_join DATA_DIR (r_sid mallory_form @ ''.jpg'')) of
              None \<Rightarrow> (alice_session, Uncaught)
            | Some file \<Rightarrow> (alice_session\<lparr>files := (files alice_session)(file \<mapsto> ''M'')\<rparr>,
                             DuplicateError))"
    by (rule register_duplicate [OF _ _ _ _ d]) (simp_all add: mallory_form_def)
  then show ?thesis
    by (simp add: alice_session_eq alice_row_def mallory_form_def path_join_def DATA_DIR_def
          demo_ext_def disk_scenario)
qed

subsection \<open>A face reference that names no file\<close>

text \<open>
  C6, as amended. The logged-in student's face reference names no file at verification
  time, and the probe is not written to the place the reference names. Then the
  check-in, once the probe is saved, reports \<open>FaceMismatch\<close> with the distance 1.0, the
  result of a verifier that failed (when the probe cannot be saved, the run ends in
  the exception of the write). In both cases nothing is written to the lectures and
  attendances tables.
\<close>

theorem checkin_missing_reference:
  assumes "user st = Some u" and "c_photo f = Some photo" and "c_lec_code f \<noteq> []"
    and "\<forall>file. disk e (s_face_path u) = Some file \<longrightarrow>
           files st file = None \<and>
           disk e (path_join DATA_DIR ((s_student_id u @ ''_probe'') @ ''.jpg'')) \<noteq> Some file"
  shows "snd (checkin e st f) =
           (if disk e (path_join DATA_DIR ((s_student_id u @ ''_probe'') @ ''.jpg'')) = None
            then Uncaught else FaceMismatch 1) \<and>
         lectures (fst (checkin e st f)) = lectures st \<and>
         attendances (fst (checkin e st f)) = attendances st"
proof (cases "disk e (path_join DATA_DIR ((s_student_id u @ ''_probe'') @ ''.jpg''))")
  case None
  with assms show ?thesis
    by (simp add: checkin_def probe_verify_def save_face_def Let_def)
next
  case (Some pf)
  have "Option.bind (disk e (s_face_path u)) ((files st)(pf \<mapsto> photo)) = None"
    using assms(4) Some by (cases "disk e (s_face_path u)") auto
  with assms(1-3) Some show ?thesis
    by (simp add: checkin_def probe_verify_def save_face_def verify_faces_def DeepFace_verify_def
          Let_def)
qed

theorem checkin_missing_reference_witness:
  "user lost_face_session = Some alice_row \<and>
   Option.bind (disk demo_ext (s_face_path alice_row)) (files lost_face_session) = None \<and>
   snd (checkin demo_ext lost_face_session (cs_form ''A'' ''2025-09-05T10:00:00'')) = FaceMismatch 1 \<and>
   lectures (fst (checkin demo_ext lost_face_session (cs_form ''A'' ''2025-09-05T10:00:00''))) = [] \<and>
   attendances (fst (checkin demo_ext lost_face_session (cs_form ''A'' ''2025-09-05T10:00:00''))) = []"
proof -
  have u: "user lost_face_session = Some alice_row"
    by (simp add: lost_face_session_def alice_session_eq)
  have p: "c_photo (cs_form ''A'' ''2025-09-05T10:00:00'') = Some ''A''" by (simp add: cs_form_def)
  have c: "c_lec_code (cs_form ''A'' ''2025-09-05T10:00:00'') \<noteq> []" by (simp add: cs_form_def)
  have n: "\<forall>file. disk demo_ext (s_face_path alice_row) = Some file \<longrightarrow>
           files lost_face_session file = None \<and>
           disk demo_ext (path_join DATA_DIR ((s_student_id alice_row @ ''_probe'') @ ''.jpg''))
             \<noteq> Some file"
    by (simp add: lost_face_session_def alice_row_def demo_ext_def path_join_def DATA_DIR_def
          disk_scenario)
  have pr: "disk demo_ext (path_join DATA_DIR ((s_student_id alice_row @ ''_probe'') @ ''.jpg''))
             \<noteq> None"
    by (simp add: alice_row_def demo_ext_def path_join_def DATA_DIR_def disk_scenario)
  show ?thesis
    using checkin_missing_reference [OF u p c n] u pr
    by (simp add: lost_face_session_def alice_session_eq alice_row_def demo_ext_def disk_scenario)
qed

text \<open>
  C6 as stated fails: with Alice's picture gone, her check-in with the right face is
  reported as \<open>FaceMismatch 1\<close>, which is also what a check-in with a wrong face reports
  while her picture is there. No error of its own tells the missing file apart.
\<close>

theorem missing_reference_reported_as_mismatch:
  "Option.bind (disk demo_ext (s_face_path alice_row)) (files lost_face_session) = None \<and>
   snd (checkin demo_ext lost_face_session (cs_form ''A'' ''2025-09-05T10:00:00'')) = FaceMismatch 1 \<and>
   Option.bind (disk demo_ext (s_face_path alice_row)) (files alice_session) = Some ''A'' \<and>
   snd (checkin demo_ext alice_session (cs_form ''B'' ''2025-09-05T10:00:00'')) = FaceMismatch 1"
  by (simp add: lost_face_session_def alice_session_eq eval_defs)

subsection \<open>An empty lecture code\<close>

text \<open>
  C7. A check-in attempt (the form is shown to a logged-in student only) with an empty
  lecture code reports the missing-lecture-code error and leaves the whole store as it
  was: no probe is saved, no verification is run (\<open>df_calls\<close> does not move), and
  nothing is written to the lectures and attendances tables.
\<close>

theorem checkin_empty_code:
  assumes "user st = Some u" and "c_lec_code f = []"
  shows "checkin e st f = (st, LectureCodeMissing)"
  using assms by (simp add: checkin_def split: option.splits)

theorem checkin_empty_code_witness:
  "user alice_session = Some alice_row \<and>
   checkin demo_ext alice_session ((cs_form ''A'' ''2025-09-05T10:00:00'')\<lparr>c_lec_code := []\<rparr>)
     = (alice_session, LectureCodeMissing) \<and>
   df_calls (fst (checkin demo_ext alice_session
      ((cs_form ''A'' ''2025-09-05T10:00:00'')\<lparr>c_lec_code := []\<rparr>))) = 0"
proof -
  have u: "user alice_session = Some alice_row" by (simp add: alice_session_eq)
  have c: "c_lec_code ((cs_form ''A'' ''2025-09-05T10:00:00'')\<lparr>c_lec_code := []\<rparr>) = []" by simp
  show ?thesis
    using checkin_empty_code [OF u c, of demo_ext] u by (simp add: alice_session_eq)
qed

subsection \<open>The attendance listing\<close>




subsection \<open>The lecture listing\<close>

text \<open>
  C9. The lecture query returns all rows of the lectures table, each once, in
  descending order of the date (the most recent first), and the dashboard leaves the
  store as it was.
\<close>

theorem list_lectures_descending:
  "sorted (rev (map l_date (list_lectures st))) \<and>
   mset (list_lectures st) = mset (lectures st) \<and>
   fst (dashboard st sel) = st"
  by (simp add: list_lectures_def dashboard_state rev_map [symmetric])

theorem list_lectures_descending_witness:
  "map l_date (list_lectures two_lectures) = [''2025-09-12'', ''2025-09-05''] \<and>
   sorted (rev (map l_date (list_lectures two_lectures))) \<and>
   fst (dashboard two_lectures 0) = two_lectures"
proof -
  have "map l_date (list_lectures two_lectures) = [''2025-09-12'', ''2025-09-05'']"
    by (simp add: two_lectures_def alice_session_eq eval_defs list_lectures_def)
  with list_lectures_descending [of two_lectures 0] show ?thesis
    by simp
qed

subsection \<open>Registration without a name\<close>

text \<open>
  C10, as amended. The guard of the registration asks for student_id, email, password
  and the face capture only. A request with these four present, a student_id and an
  email that no row has, a picture path that can be written, and an empty name is
  registered, and the name of the new row is the empty string.
\<close>

theorem register_empty_name:
  assumes "r_photo f = Some photo" and "r_sid f \<noteq> []" and "r_email f \<noteq> []" and "r_pw f \<noteq> []"
    and "\<forall>s \<in> set (students st). s_student_id s \<noteq> r_sid f \<and> s_email s \<noteq> r_email f"
    and "disk e (path_join DATA_DIR (r_sid f @ ''.jpg'')) = Some file"
    and "r_name f = []"
  shows "snd (register e st f) = Registered \<and>
         (\<exists>row. students (fst (register e st f)) = students st @ [row] \<and>
                s_student_id row = r_sid f \<and> s_email row = r_email f \<and> s_name row = [])"
  using assms by (auto simp add: register_def save_face_def insert_student_def Let_def)

theorem register_empty_name_witness:
  "snd (register demo_ext alice_session nameless_form) = Registered \<and>
   (\<exists>row. students (fst (register demo_ext alice_session nameless_form)) = [alice_row, row] \<and>
          s_student_id row = ''S200'' \<and> s_email row = ''bob@x.com'' \<and> s_name row = [])"
proof -
  have d: "\<forall>s \<in> set (students alice_session).
             s_student_id s \<noteq> r_sid nameless_form \<and> s_email s \<noteq> r_email nameless_form"
    by (simp add: alice_session_eq alice_row_def nameless_form_def)
  have k: "disk demo_ext (path_join DATA_DIR (r_sid nameless_form @ ''.jpg'')) = Some ''data/S200.jpg''"
    by (simp add: nameless_form_def demo_ext_def path_join_def DATA_DIR_def disk_scenario)
  have "snd (register demo_ext alice_session nameless_form) = Registered \<and>
         (\<exists>row. students (fst (register demo_ext alice_session nameless_form))
                  = students alice_session @ [row] \<and>
                s_student_id row = r_sid nameless_form \<and> s_email row = r_email nameless_form \<and>
                s_name row = [])"
    by (rule register_empty_name [OF _ _ _ _ d k]) (simp_all add: nameless_form_def)
  then show ?thesis
    by (simp add: alice_session_eq nameless_form_def)
qed

text \<open>
  C10 as stated fails for a student id whose picture path cannot be opened: with the
  id CSC/22D/4441 the path is \<open>data/CSC/22D/4441.jpg\<close>, the directory \<open>data/CSC/22D\<close> does
  not exist, \<open>img.save\<close> raises, and no row is created although the four fields are
  present and the id and email are new.
\<close>

theorem register_slash_id_uncaught:
  "r_photo slash_form = Some ''S'' \<and> r_sid slash_form = ''CSC/22D/4441'' \<and>
   r_email slash_form = ''sadiq@x.com'' \<and> r_pw slash_form = ''pw000'' \<and> r_name slash_form = [] \<and>
   find (\<lambda>s. s_student_id s = r_sid slash_form \<or> s_email s = r_email slash_form)
     (students alice_session) = None \<and>
   register demo_ext alice_session slash_form = (alice_session, Uncaught)"
  by (simp add: slash_form_def alice_session_eq alice_row_def register_def save_face_def
        path_join_def DATA_DIR_def demo_ext_def disk_scenario)

end
